theory Spec2Isabelle
  imports Main
begin

section \<open>The valid-jsdoc rule of fecs (lib/js/rules/valid-jsdoc.js)\<close>

text \<open>
  The rule is a closure over three configuration values and one mutable array \<open>fns\<close>.
  It registers three handlers with the traversal: \<open>startFunction\<close>, \<open>addReturn\<close> and
  \<open>checkJSDoc\<close>. Everything a handler does besides changing \<open>fns\<close> is a call of
  \<open>context.report\<close>, or a JavaScript exception that leaves the handler. The model keeps
  the list of reports made so far and the exception, if one was thrown, in the state.
\<close>

subsection \<open>JavaScript values and strings\<close>

text \<open>
  The values that reach a report's substitution data: strings, \<open>undefined\<close>, and what a
  lookup in an object literal inherits from \<open>Object.prototype\<close> under the given key.
\<close>

datatype jsval = JUndefined | JStr string | JInherited string

datatype jsnum = Num int | NaN

datatype js_error = TypeError

text \<open>\<open>s.startsWith(t)\<close>, used to write \<open>indexOf\<close> and the global replace.\<close>

fun startsWith :: "string \<Rightarrow> string \<Rightarrow> bool" where
  "startsWith s [] = True"
| "startsWith [] (c # cs) = False"
| "startsWith (x # xs) (c # cs) = (x = c \<and> startsWith xs cs)"

text \<open>\<open>s.indexOf(t)\<close>: the first position at which \<open>t\<close> occurs in \<open>s\<close>, or \<open>-1\<close>.\<close>

fun indexOf_from :: "nat \<Rightarrow> string \<Rightarrow> string \<Rightarrow> int" where
  "indexOf_from i [] t = (if t = [] then int i else - 1)"
| "indexOf_from i (c # cs) t =
     (if startsWith (c # cs) t then int i else indexOf_from (Suc i) cs t)"

definition indexOf :: "string \<Rightarrow> string \<Rightarrow> int" where
  "indexOf s t = indexOf_from 0 s t"

text \<open>
  \<open>s.toLowerCase()\<close> on the ASCII letters. The rule compares the result with ASCII
  keys only, and no character outside ASCII folds to a letter that occurs in one of
  them; a regular expression with the flag \<open>i\<close> never matches such a character with an
  ASCII letter either.
\<close>

definition lower_char :: "char \<Rightarrow> char" where
  "lower_char c =
     (case map_of (zip ''ABCDEFGHIJKLMNOPQRSTUVWXYZ'' ''abcdefghijklmnopqrstuvwxyz'') c of
        Some l \<Rightarrow> l
      | None \<Rightarrow> c)"

definition toLowerCase :: "string \<Rightarrow> string" where
  "toLowerCase s = map lower_char s"

text \<open>\<open>/braces/i.test(s)\<close>: the word occurs in \<open>s\<close>, in any mix of cases.\<close>

definition test_braces :: "string \<Rightarrow> bool" where
  "test_braces s = (indexOf (toLowerCase s) ''braces'' \<noteq> - 1)"

text \<open>\<open>s.replace(/module:/g, '')\<close>: every match, scanning from the left, is removed.\<close>

fun replace_module :: "string \<Rightarrow> string" where
  "replace_module [] = []"
| "replace_module (c # cs) =
     (if startsWith (c # cs) ''module:'' then replace_module (drop 6 cs)
      else c # replace_module cs)"

text \<open>\<open>s.split(/\n/)\<close>\<close>

fun split_newline :: "string \<Rightarrow> string list" where
  "split_newline [] = [[]]"
| "split_newline (c # cs) =
     (if c = CHR 0x0A then [] # split_newline cs
      else (case split_newline cs of [] \<Rightarrow> [[c]] | l # ls \<Rightarrow> (c # l) # ls))"

text \<open>Truthiness of a string or \<open>null\<close>: \<open>null\<close> and the empty string are falsy.\<close>

definition truthy :: "string option \<Rightarrow> bool" where
  "truthy d = (case d of None \<Rightarrow> False | Some s \<Rightarrow> s \<noteq> [])"

subsection \<open>Objects used as dictionaries\<close>

text \<open>
  \<open>params\<close> is created with \<open>Object.create(null)\<close>: it has own properties only. It is
  kept as the list of its properties in the order of their creation. \<open>Object.keys\<close>
  lists the keys that are array indices first, in ascending numeric order, and the
  other keys in the order of their creation.
\<close>

definition is_digit :: "char \<Rightarrow> bool" where
  "is_digit c = (48 \<le> (of_char c :: int) \<and> (of_char c :: int) \<le> 57)"

definition digits_value :: "string \<Rightarrow> int" where
  "digits_value s = foldl (\<lambda>a c. 10 * a + ((of_char c :: int) - 48)) 0 s"

definition array_index :: "string \<Rightarrow> int option" where
  "array_index s =
     (if s \<noteq> [] \<and> list_all is_digit s \<and> (if hd s = CHR ''0'' then s = ''0'' else True)
         \<and> digits_value s < 4294967295
      then Some (digits_value s) else None)"

definition Object_keys :: "(string \<times> 'v) list \<Rightarrow> string list" where
  "Object_keys ps =
     map snd (sort_key fst
       (List.map_filter (\<lambda>k. map_option (\<lambda>n. (n, k)) (array_index k)) (map fst ps)))
     @ filter (\<lambda>k. array_index k = None) (map fst ps)"

text \<open>
  The table of preferred type names is an object literal, so a lookup that finds no own
  property continues in \<open>Object.prototype\<close>. Two of the properties there have a name
  without capital letters, \<open>constructor\<close> and \<open>__proto__\<close>, and can be found under a
  lowercased key.
\<close>

definition object_prototype_keys :: "string list" where
  "object_prototype_keys =
     [''constructor'', ''__proto__'', ''hasOwnProperty'', ''isPrototypeOf'',
      ''propertyIsEnumerable'', ''toLocaleString'', ''toString'', ''valueOf'',
      ''__defineGetter__'', ''__defineSetter__'', ''__lookupGetter__'', ''__lookupSetter__'']"

definition type_map :: "(string \<times> string) list" where
  "type_map =
     [(''string'', ''string''), (''boolean'', ''boolean''), (''number'', ''number''),
      (''int'', ''number''), (''array'', ''Array''), (''function'', ''Function''),
      (''date'', ''Date''), (''object'', ''Object''), (''regexp'', ''RegExp'')]"

definition type_map_get :: "string \<Rightarrow> jsval" where
  "type_map_get k =
     (case map_of type_map k of
        Some v \<Rightarrow> JStr v
      | None \<Rightarrow> if k \<in> set object_prototype_keys then JInherited k else JUndefined)"

subsection \<open>Data\<close>

text \<open>
  A type expression of the comment parser: \<open>{type: 'NameExpression', name: ...}\<close>, or an
  object with another \<open>type\<close>, of which the rule reads the \<open>name\<close> property only
  (\<open>undefined\<close> when it has none).
\<close>

datatype type_expr = NameExpression string | OtherExpression "string option"

fun type_name :: "type_expr \<Rightarrow> string option" where
  "type_name (NameExpression n) = Some n"
| "type_name (OtherExpression n) = n"

text \<open>
  A tag of the parsed comment. \<open>tname\<close> is \<open>tag.name\<close>, \<open>ttype\<close> is \<open>tag.type\<close>
  (\<open>None\<close> for \<open>null\<close>), \<open>description\<close> is \<open>null\<close> or a string, \<open>lineNumber\<close> the offset of
  the tag's line from the first line of the comment.
\<close>

record tag =
  title :: string
  tname :: string
  ttype :: "type_expr option"
  description :: "string option"
  lineNumber :: nat

text \<open>The comment node: \<open>value\<close>, \<open>loc.start.line\<close> and \<open>loc.start.column\<close>.\<close>

record comment =
  comment_value :: string
  loc_start_line :: int
  loc_start_column :: int

text \<open>
  A parameter of the function node: an identifier has a \<open>name\<close>, any other pattern has
  none, and \<open>param.name\<close> is \<open>undefined\<close> there.
\<close>

datatype pattern = Identifier string | OtherPattern

fun param_name :: "pattern \<Rightarrow> string option" where
  "param_name (Identifier n) = Some n"
| "param_name OtherPattern = None"

text \<open>
  The function node, with what \<open>context.getJSDocComment(node)\<close> returns for it
  (\<open>None\<close> for \<open>null\<close>) and \<open>node.params\<close>.
\<close>

record function_node =
  jsdocComment :: "comment option"
  node_params :: "pattern list"

text \<open>
  The three closure variables read from \<open>context.options[0]\<close>; \<open>prefer_map\<close> is
  \<open>prefer\<close>, with its own properties.
\<close>

record config =
  requireReturn :: bool
  requireParamDescription :: bool
  prefer_map :: "string \<rightharpoonup> string"

text \<open>
  One call \<open>context.report(node, location, message, data)\<close>. The second argument is
  optional; its \<open>column\<close> is given by one call only.
\<close>

record location =
  line :: jsnum
  column :: "int option"

record diagnostic =
  node :: comment
  loc :: "location option"
  message :: string
  data :: "(string \<times> jsval) list"

text \<open>An entry of the stack \<open>fns\<close>.\<close>

record function_state =
  returnPresent :: bool

text \<open>
  The state of one call of \<open>checkJSDoc\<close> after the comment has been parsed: its local
  variables, the reports it has made, and the exception that has left it, if any.
\<close>

record check_state =
  hasReturns :: bool
  hasConstructor :: bool
  params :: "(string \<times> tag) list"
  reported :: "diagnostic list"
  thrown :: "js_error option"

text \<open>The state of the rule: the stack, all reports, and an exception that escaped.\<close>

record rule_state =
  fns :: "function_state list"
  reports :: "diagnostic list"
  crashed :: "js_error option"

subsection \<open>The handlers\<close>

definition startFunction :: "rule_state \<Rightarrow> rule_state" where
  "startFunction rs = rs\<lparr>fns := fns rs @ [\<lparr>returnPresent = False\<rparr>]\<rparr>"

text \<open>
  \<open>addReturn(node)\<close>, given \<open>node.argument\<close> (\<open>None\<close> for \<open>null\<close>). \<open>fns[fns.length - 1]\<close>
  is \<open>undefined\<close> for the empty array, and the conjunction is false then.
\<close>

definition addReturn :: "'e option \<Rightarrow> rule_state \<Rightarrow> rule_state" where
  "addReturn argument rs =
     (if fns rs \<noteq> [] \<and> argument \<noteq> None
      then rs\<lparr>fns := (fns rs)[length (fns rs) - 1 := (last (fns rs))\<lparr>returnPresent := True\<rparr>]\<rparr>
      else rs)"

definition report ::
  "comment \<Rightarrow> location option \<Rightarrow> string \<Rightarrow> (string \<times> jsval) list \<Rightarrow> check_state \<Rightarrow> check_state"
where
  "report n l m d s = s\<lparr>reported := reported s @ [\<lparr>node = n, loc = l, message = m, data = d\<rparr>]\<rparr>"

definition throw :: "js_error \<Rightarrow> check_state \<Rightarrow> check_state" where
  "throw e s = s\<lparr>thrown := Some e\<rparr>"

text \<open>\<open>{line: startLine + tag.lineNumber}\<close>\<close>

definition tag_line :: "comment \<Rightarrow> tag \<Rightarrow> location" where
  "tag_line c t = \<lparr>line = Num (loc_start_line c + int (lineNumber t)), column = None\<rparr>"

text \<open>The case \<open>'param'\<close> of the switch.\<close>

definition check_param_tag :: "config \<Rightarrow> comment \<Rightarrow> tag \<Rightarrow> check_state \<Rightarrow> check_state" where
  "check_param_tag cfg c t s =
     (let s1 = (if ttype t = None
                then report c (Some (tag_line c t))
                       ''Missing JSDoc parameter type for \"{{name}}\".'' [(''name'', JStr (tname t))] s
                else s);
          s2 = (if \<not> truthy (description t) \<and> requireParamDescription cfg
                then report c (Some (tag_line c t))
                       ''Missing JSDoc parameter description for \"{{name}}\".''
                       [(''name'', JStr (tname t))] s1
                else s1)
      in if map_of (params s2) (tname t) \<noteq> None
         then report c (Some (tag_line c t))
                ''Duplicate JSDoc parameter \"{{name}}\".'' [(''name'', JStr (tname t))] s2
         else if indexOf (tname t) ''.'' = - 1
         then s2\<lparr>params := params s2 @ [(tname t, t)]\<rparr>
         else s2)"

text \<open>
  The cases \<open>'return'\<close> and \<open>'returns'\<close>. \<open>functionData.returnPresent\<close> throws when
  \<open>fns.pop()\<close> returned \<open>undefined\<close>, and \<open>tag.type.name\<close> throws when \<open>tag.type\<close> is
  \<open>null\<close>; the conjunction is evaluated from the left and stops at the first false
  operand.
\<close>

definition return_else_branch :: "comment \<Rightarrow> tag \<Rightarrow> check_state \<Rightarrow> check_state" where
  "return_else_branch c t s =
     (case ttype t of
        None \<Rightarrow>
          throw TypeError (report c (Some (tag_line c t)) ''Missing JSDoc return type.'' [] s)
      | Some ty \<Rightarrow>
          if type_name ty \<noteq> Some ''void'' \<and> \<not> truthy (description t)
          then report c (Some (tag_line c t)) ''Missing JSDoc return description.'' [] s
          else s)"

definition check_return_tag ::
  "config \<Rightarrow> function_state option \<Rightarrow> comment \<Rightarrow> tag \<Rightarrow> check_state \<Rightarrow> check_state"
where
  "check_return_tag cfg functionData c t s0 =
     (let s = s0\<lparr>hasReturns := True\<rparr> in
      if requireReturn cfg then return_else_branch c t s
      else (case functionData of
              None \<Rightarrow> throw TypeError s
            | Some fd \<Rightarrow>
                if returnPresent fd then return_else_branch c t s
                else (case ttype t of
                        None \<Rightarrow> throw TypeError s
                      | Some ty \<Rightarrow>
                          if type_name ty \<noteq> Some ''void'' \<and> type_name ty \<noteq> Some ''undefined''
                          then report c (Some (tag_line c t))
                                 (''Unexpected @'' @ title t @ '' tag; function has no return statement.'')
                                 [] s
                          else return_else_branch c t s)))"

text \<open>
  The check of the tag preferences. \<open>prefer\<close> is an object of the configuration, and
  \<open>prefer.hasOwnProperty\<close> is looked up in it first: when it has an own property of
  that name, the value is a string of the configuration and the call throws. The
  message template is the at sign followed by the placeholder \<open>{{name}}\<close> and the word
  \<open>instead\<close>.
\<close>

definition use_instead_message :: string where
  "use_instead_message = ''Use @'' @ ''{{name}} instead.''"

definition check_prefer :: "config \<Rightarrow> comment \<Rightarrow> tag \<Rightarrow> check_state \<Rightarrow> check_state" where
  "check_prefer cfg c t s =
     (if prefer_map cfg ''hasOwnProperty'' \<noteq> None then throw TypeError s
      else (case prefer_map cfg (title t) of
              None \<Rightarrow> s
            | Some p \<Rightarrow>
                report c (Some (tag_line c t)) use_instead_message [(''name'', JStr p)] s))"

text \<open>
  The check of the type name. \<open>lines[tag.lineNumber]\<close> is \<open>undefined\<close> beyond the last
  line, and \<open>indexOf\<close> on it throws while the arguments of the report are evaluated.
\<close>

definition check_type_name :: "comment \<Rightarrow> tag \<Rightarrow> check_state \<Rightarrow> check_state" where
  "check_type_name c t s =
     (case ttype t of
        None \<Rightarrow> s
      | Some (OtherExpression n) \<Rightarrow> s
      | Some (NameExpression n) \<Rightarrow>
          (let perferName = type_map_get (toLowerCase n);
               lines = split_newline (comment_value c)
           in if perferName \<noteq> JUndefined \<and> JStr n \<noteq> perferName
              then (if lineNumber t < length lines
                    then report c
                           (Some \<lparr>line = Num (loc_start_line c + int (lineNumber t)),
                                  column = Some (loc_start_column c + 1
                                                 + indexOf (lines ! lineNumber t) n)\<rparr>)
                           ''Expected JSDoc type name \"{{name}}\" but found \"{{jsdocName}}\".''
                           [(''name'', perferName), (''jsdocName'', JStr n)] s
                    else throw TypeError s)
              else s))"

text \<open>The statement \<open>switch (tag.title)\<close>.\<close>

definition switch_title ::
  "config \<Rightarrow> function_state option \<Rightarrow> comment \<Rightarrow> tag \<Rightarrow> check_state \<Rightarrow> check_state"
where
  "switch_title cfg functionData c t s =
     (if title t = ''param'' then check_param_tag cfg c t s
      else if title t = ''return'' \<or> title t = ''returns''
      then check_return_tag cfg functionData c t s
      else if title t = ''constructor'' then s\<lparr>hasConstructor := True\<rparr>
      else s)"

text \<open>The callback of \<open>jsdoc.tags.forEach\<close>.\<close>

definition check_tag ::
  "config \<Rightarrow> function_state option \<Rightarrow> comment \<Rightarrow> tag \<Rightarrow> check_state \<Rightarrow> check_state"
where
  "check_tag cfg functionData c t s =
     (let s1 = switch_title cfg functionData c t s
      in if thrown s1 \<noteq> None then s1
         else (let s2 = check_prefer cfg c t s1
               in if thrown s2 \<noteq> None then s2 else check_type_name c t s2))"

text \<open>\<open>forEach\<close> over the tags: an exception in the callback ends the loop.\<close>

fun check_tags ::
  "config \<Rightarrow> function_state option \<Rightarrow> comment \<Rightarrow> tag list \<Rightarrow> check_state \<Rightarrow> check_state"
where
  "check_tags cfg functionData c [] s = s"
| "check_tags cfg functionData c (t # ts) s =
     (let s' = check_tag cfg functionData c t s
      in if thrown s' \<noteq> None then s' else check_tags cfg functionData c ts s')"

text \<open>The check for functions missing \<open>@returns\<close>.\<close>

definition check_missing_return ::
  "config \<Rightarrow> function_state option \<Rightarrow> comment \<Rightarrow> check_state \<Rightarrow> check_state"
where
  "check_missing_return cfg functionData c s =
     (if \<not> hasReturns s \<and> \<not> hasConstructor s
      then (if requireReturn cfg
            then report c None ''Missing JSDoc @return for function.'' [] s
            else (case functionData of
                    None \<Rightarrow> throw TypeError s
                  | Some fd \<Rightarrow>
                      if returnPresent fd
                      then report c None ''Missing JSDoc @return for function.'' [] s
                      else s))
      else s)"

text \<open>
  The callback of \<open>node.params.forEach\<close>, with the index \<open>i\<close>. \<open>jsdocParams[i]\<close> is a
  key, a string: it is falsy when it is \<open>undefined\<close> or empty, and its \<open>lineNumber\<close> is
  \<open>undefined\<close>, which makes the sum \<open>NaN\<close>. \<open>params[name]\<close> converts \<open>name\<close> to a
  property key.
\<close>

fun to_key :: "string option \<Rightarrow> string" where
  "to_key (Some n) = n"
| "to_key None = ''undefined''"

fun to_jsval :: "string option \<Rightarrow> jsval" where
  "to_jsval (Some n) = JStr n"
| "to_jsval None = JUndefined"

definition check_param ::
  "comment \<Rightarrow> (string \<times> tag) list \<Rightarrow> string list \<Rightarrow> nat \<Rightarrow> pattern \<Rightarrow> check_state \<Rightarrow> check_state"
where
  "check_param c ps jsdocParams i p s =
     (let name = param_name p in
      if i < length jsdocParams \<and> jsdocParams ! i \<noteq> [] \<and> name \<noteq> Some (jsdocParams ! i)
      then report c (Some \<lparr>line = NaN, column = None\<rparr>)
             ''Expected JSDoc for \"{{name}}\" but found \"{{jsdocName}}\".''
             [(''name'', to_jsval name), (''jsdocName'', JStr (jsdocParams ! i))] s
      else if map_of ps (to_key name) = None
      then report c None ''Missing JSDoc for parameter \"{{name}}\".''
             [(''name'', to_jsval name)] s
      else s)"

fun check_params_from ::
  "comment \<Rightarrow> (string \<times> tag) list \<Rightarrow> string list \<Rightarrow> nat \<Rightarrow> pattern list \<Rightarrow> check_state \<Rightarrow> check_state"
where
  "check_params_from c ps jsdocParams i [] s = s"
| "check_params_from c ps jsdocParams i (p # rest) s =
     check_params_from c ps jsdocParams (Suc i) rest (check_param c ps jsdocParams i p s)"

definition check_params :: "comment \<Rightarrow> pattern list \<Rightarrow> check_state \<Rightarrow> check_state" where
  "check_params c real s = check_params_from c (params s) (Object_keys (params s)) 0 real s"

text \<open>What \<open>checkJSDoc\<close> does after the comment has been parsed.\<close>

definition initial_check_state :: check_state where
  "initial_check_state =
     \<lparr>hasReturns = False, hasConstructor = False, params = [], reported = [], thrown = None\<rparr>"

definition validate ::
  "config \<Rightarrow> function_state option \<Rightarrow> comment \<Rightarrow> tag list \<Rightarrow> pattern list \<Rightarrow> check_state"
where
  "validate cfg functionData c tags real =
     (let s1 = check_tags cfg functionData c tags initial_check_state in
      if thrown s1 \<noteq> None then s1
      else (let s2 = check_missing_return cfg functionData c s1 in
            if thrown s2 \<noteq> None then s2 else check_params c real s2))"

text \<open>
  \<open>checkJSDoc(node)\<close>. The comment parser is a parameter: given the text, it returns the
  tags or throws an error with a message (\<open>Inl\<close>). \<open>fns.pop()\<close> returns \<open>undefined\<close> for
  the empty array and leaves it empty.
\<close>

definition checkJSDoc ::
  "config \<Rightarrow> (string \<Rightarrow> string + tag list) \<Rightarrow> function_node \<Rightarrow> rule_state \<Rightarrow> rule_state"
where
  "checkJSDoc cfg doctrine_parse fnode rs =
     (let functionData = (if fns rs = [] then None else Some (last (fns rs)));
          rs1 = rs\<lparr>fns := butlast (fns rs)\<rparr>
      in case jsdocComment fnode of
           None \<Rightarrow> rs1
         | Some jsdocNode \<Rightarrow>
             (case doctrine_parse (replace_module (comment_value jsdocNode)) of
                Inl ex_message \<Rightarrow>
                  rs1\<lparr>reports := reports rs1 @
                        [\<lparr>node = jsdocNode, loc = None,
                          message = (if test_braces ex_message then ''JSDoc type missing brace.''
                                     else ''JSDoc syntax error.''),
                          data = []\<rparr>]\<rparr>
              | Inr tags \<Rightarrow>
                  (let s = validate cfg functionData jsdocNode tags (node_params fnode)
                   in rs1\<lparr>reports := reports rs1 @ reported s, crashed := thrown s\<rparr>)))"

subsection \<open>The traversal\<close>

text \<open>
  The events for which the rule registers a handler, in the order of the traversal. An
  exception that leaves a handler ends the run.
\<close>

datatype 'e event = Enter | Return "'e option" | Exit function_node

fun step ::
  "config \<Rightarrow> (string \<Rightarrow> string + tag list) \<Rightarrow> 'e event \<Rightarrow> rule_state \<Rightarrow> rule_state"
where
  "step cfg doctrine_parse Enter rs = startFunction rs"
| "step cfg doctrine_parse (Return a) rs = addReturn a rs"
| "step cfg doctrine_parse (Exit fnode) rs = checkJSDoc cfg doctrine_parse fnode rs"

fun run ::
  "config \<Rightarrow> (string \<Rightarrow> string + tag list) \<Rightarrow> 'e event list \<Rightarrow> rule_state \<Rightarrow> rule_state"
where
  "run cfg doctrine_parse [] rs = rs"
| "run cfg doctrine_parse (e # es) rs =
     (if crashed rs \<noteq> None then rs
      else run cfg doctrine_parse es (step cfg doctrine_parse e rs))"

subsection \<open>Nesting and example inputs\<close>

text \<open>
  The number of function definitions that are open after a sequence of events, starting
  from \<open>d\<close> open ones; \<open>None\<close> when a function is left that was never entered.
\<close>

fun nesting :: "nat \<Rightarrow> 'e event list \<Rightarrow> nat option" where
  "nesting d [] = Some d"
| "nesting d (Enter # es) = nesting (Suc d) es"
| "nesting d (Return a # es) = nesting d es"
| "nesting d (Exit fnode # es) = (case d of 0 \<Rightarrow> None | Suc d' \<Rightarrow> nesting d' es)"

definition is_missing_return :: "diagnostic \<Rightarrow> bool" where
  "is_missing_return d = (message d = ''Missing JSDoc @return for function.'')"

text \<open>The state of a new rule, and the configuration when no option is given.\<close>

definition initial_rule_state :: rule_state where
  "initial_rule_state = \<lparr>fns = [], reports = [], crashed = None\<rparr>"

definition default_config :: config where
  "default_config =
     \<lparr>requireReturn = True, requireParamDescription = True, prefer_map = Map.empty\<rparr>"

text \<open>
  A comment of three lines, placed at line 3, column 4, with the tag that the parser
  returns for its second line; and a comment whose \<open>@return\<close> tag has no type.
\<close>

definition example_comment :: comment where
  "example_comment =
     \<lparr>comment_value = ''*\<newline> * @param {String} x the value\<newline> '',
      loc_start_line = 3, loc_start_column = 4\<rparr>"

definition example_tag :: tag where
  "example_tag =
     \<lparr>title = ''param'', tname = ''x'', ttype = Some (NameExpression ''String''),
      description = Some ''the value'', lineNumber = 1\<rparr>"

definition typeless_comment :: comment where
  "typeless_comment =
     \<lparr>comment_value = ''*\<newline> * @return the sum\<newline> '',
      loc_start_line = 3, loc_start_column = 4\<rparr>"

definition typeless_tag :: tag where
  "typeless_tag =
     \<lparr>title = ''return'', tname = '''', ttype = None,
      description = Some ''the sum'', lineNumber = 1\<rparr>"

text \<open>
  A comment whose lines are ended by a carriage return alone, for which the parser
  returns the tag above; the same with another type name; and comments with a returns
  tag without a type, and with a return tag without a type between two param tags.
\<close>

definition lone_cr_comment :: comment where
  "lone_cr_comment =
     \<lparr>comment_value =
        ''*'' @ CHR 0x0D # '' * @param {String} x the value'' @ CHR 0x0D # '' '',
      loc_start_line = 3, loc_start_column = 4\<rparr>"

definition lone_cr_number_comment :: comment where
  "lone_cr_number_comment =
     \<lparr>comment_value =
        ''*'' @ CHR 0x0D # '' * @param {Number} n the count'' @ CHR 0x0D # '' '',
      loc_start_line = 3, loc_start_column = 4\<rparr>"

definition number_tag :: tag where
  "number_tag =
     \<lparr>title = ''param'', tname = ''n'', ttype = Some (NameExpression ''Number''),
      description = Some ''the count'', lineNumber = 1\<rparr>"

definition typeless_returns_comment :: comment where
  "typeless_returns_comment =
     \<lparr>comment_value = ''*\<newline> * @returns the sum\<newline> '',
      loc_start_line = 3, loc_start_column = 4\<rparr>"

definition duplicate_comment :: comment where
  "duplicate_comment =
     \<lparr>comment_value =
        ''*\<newline> * @param {string} x the value\<newline> * @return the same\<newline> * @param {string} x again\<newline> '',
      loc_start_line = 3, loc_start_column = 4\<rparr>"

definition first_x_tag :: tag where
  "first_x_tag =
     \<lparr>title = ''param'', tname = ''x'', ttype = Some (NameExpression ''string''),
      description = Some ''the value'', lineNumber = 1\<rparr>"

section \<open>Properties\<close>

subsection \<open>Strings\<close>

text \<open>
  \<open>indexOf\<close> returns the position of the first occurrence, and \<open>-1\<close> exactly when
  there is none; the test for \<open>/braces/i\<close> succeeds exactly when the message has a part
  that reads \<open>braces\<close> after the capital letters have been lowered.
\<close>

lemma startsWith_iff: "startsWith s t \<longleftrightarrow> (\<exists>v. s = t @ v)"
  by (induction s t rule: startsWith.induct) auto

lemma indexOf_from_range: "indexOf_from i s t = - 1 \<or> int i \<le> indexOf_from i s t"
  by (induction i s t rule: indexOf_from.induct) auto

lemma indexOf_from_found:
  "indexOf_from i s t = int k \<Longrightarrow>
     i \<le> k \<and> (\<exists>u v. s = u @ t @ v \<and> length u = k - i
                  \<and> (\<forall>u' v'. s = u' @ t @ v' \<longrightarrow> length u \<le> length u'))"
proof (induction i s t arbitrary: k rule: indexOf_from.induct)
  case (1 i t)
  then show ?case by (simp split: if_splits)
next
  case (2 i c cs t)
  show ?case
  proof (cases "startsWith (c # cs) t")
    case True
    then obtain v where v: "c # cs = [] @ t @ v" by (auto simp: startsWith_iff)
    have k: "k = i" using True "2.prems" by simp
    show ?thesis
      apply (rule conjI)
       apply (simp add: k)
      apply (rule exI [of _ "[]"])
      apply (rule exI [of _ v])
      using v k apply simp
      done
  next
    case False
    then have r: "indexOf_from (Suc i) cs t = int k" using "2.prems" by simp
    from "2.IH" [OF False r] obtain u v where
      uv: "Suc i \<le> k" "cs = u @ t @ v" "length u = k - Suc i"
          "\<forall>u' v'. cs = u' @ t @ v' \<longrightarrow> length u \<le> length u'"
      by blast
    have a: "c # cs = (c # u) @ t @ v" using uv(2) by simp
    have b: "length (c # u) = k - i" using uv(1,3) by simp
    have d: "length (c # u) \<le> length u'" if "c # cs = u' @ t @ v'" for u' v'
    proof (cases u')
      case Nil
      then have "c # cs = t @ v'" using that by simp
      then have "startsWith (c # cs) t" unfolding startsWith_iff by (rule exI)
      then show ?thesis using False by simp
    next
      case (Cons x xs)
      then have "cs = xs @ t @ v'" using that by simp
      then have "length u \<le> length xs" using uv(4) by blast
      then show ?thesis using Cons by simp
    qed
    have "i \<le> k" using uv(1) by simp
    moreover have "\<exists>u v. c # cs = u @ t @ v \<and> length u = k - i
                  \<and> (\<forall>u' v'. c # cs = u' @ t @ v' \<longrightarrow> length u \<le> length u')"
      using a b d by blast
    ultimately show ?thesis by (rule conjI)
  qed
qed

lemma indexOf_from_absent:
  "indexOf_from i s t = - 1 \<Longrightarrow> s \<noteq> u @ t @ v"
proof (induction i s t arbitrary: u rule: indexOf_from.induct)
  case (1 i t)
  then show ?case by (simp split: if_splits)
next
  case (2 i c cs t)
  have ns: "\<not> startsWith (c # cs) t"
    using "2.prems" by (simp split: if_splits)
  then have r: "indexOf_from (Suc i) cs t = - 1" using "2.prems" by simp
  show ?case
  proof (cases u)
    case Nil
    show ?thesis
    proof
      assume "c # cs = u @ t @ v"
      then have "c # cs = t @ v" using Nil by simp
      then have "startsWith (c # cs) t" unfolding startsWith_iff by (rule exI)
      then show False using ns by simp
    qed
  next
    case (Cons x xs)
    have "cs \<noteq> xs @ t @ v" using "2.IH" [OF ns r] .
    then show ?thesis using Cons by simp
  qed
qed

lemma indexOf_first_occurrence:
  assumes "indexOf s t = int k"
  shows "\<exists>u v. s = u @ t @ v \<and> length u = k
           \<and> (\<forall>u' v'. s = u' @ t @ v' \<longrightarrow> k \<le> length u')"
proof -
  from indexOf_from_found [of 0 s t k] assms obtain u v where
    "s = u @ t @ v" "length u = k - 0"
    "\<forall>u' v'. s = u' @ t @ v' \<longrightarrow> length u \<le> length u'"
    unfolding indexOf_def by blast
  then show ?thesis by auto
qed

lemma indexOf_absent_iff: "indexOf s t = - 1 \<longleftrightarrow> \<not> (\<exists>u v. s = u @ t @ v)"
proof
  assume "indexOf s t = - 1"
  then show "\<not> (\<exists>u v. s = u @ t @ v)"
    using indexOf_from_absent [of 0 s t] by (simp add: indexOf_def)
next
  assume no: "\<not> (\<exists>u v. s = u @ t @ v)"
  show "indexOf s t = - 1"
  proof (rule ccontr)
    assume "indexOf s t \<noteq> - 1"
    then have "0 \<le> indexOf s t" using indexOf_from_range [of 0 s t] by (simp add: indexOf_def)
    then obtain k where "indexOf s t = int k" using nonneg_int_cases by blast
    then show False using indexOf_first_occurrence [of s t k] no by blast
  qed
qed

lemma indexOf_present_iff: "indexOf s t \<noteq> - 1 \<longleftrightarrow> (\<exists>u v. s = u @ t @ v)"
  unfolding indexOf_absent_iff by simp

lemma map_contains_iff:
  "(\<exists>u v. map f s = u @ t @ v) \<longleftrightarrow> (\<exists>u w v. s = u @ w @ v \<and> map f w = t)"
proof
  assume "\<exists>u v. map f s = u @ t @ v"
  then obtain u v where "map f s = u @ (t @ v)"
    by blast
  then have "\<exists>a r. s = a @ r \<and> u = map f a \<and> t @ v = map f r"
    unfolding map_eq_append_conv .
  then obtain a r where a: "s = a @ r" and r': "t @ v = map f r"
    by blast
  note r = r' [symmetric]
  from r have "\<exists>w b. r = w @ b \<and> t = map f w \<and> v = map f b"
    unfolding map_eq_append_conv .
  then obtain w b where w: "r = w @ b" and b': "t = map f w"
    by blast
  have "s = a @ w @ b" unfolding a w ..
  then show "\<exists>u w v. s = u @ w @ v \<and> map f w = t"
    using b' by blast
next
  assume "\<exists>u w v. s = u @ w @ v \<and> map f w = t"
  then obtain u w v where s: "s = u @ w @ v" and w: "map f w = t"
    by blast
  have "map f s = map f u @ map f w @ map f v"
    unfolding s map_append ..
  then show "\<exists>u v. map f s = u @ t @ v"
    unfolding w by blast
qed

lemma test_braces_iff:
  "test_braces s \<longleftrightarrow> (\<exists>u w v. s = u @ w @ v \<and> toLowerCase w = ''braces'')"
  unfolding test_braces_def indexOf_present_iff toLowerCase_def by (rule map_contains_iff)

subsection \<open>What each part of the tag callback changes\<close>

lemma report_fields [simp]:
  "reported (report n l m d s) = reported s @ [\<lparr>node = n, loc = l, message = m, data = d\<rparr>]"
  "thrown (report n l m d s) = thrown s"
  "params (report n l m d s) = params s"
  "hasReturns (report n l m d s) = hasReturns s"
  "hasConstructor (report n l m d s) = hasConstructor s"
  by (simp_all add: report_def)

lemma throw_fields [simp]:
  "reported (throw e s) = reported s"
  "thrown (throw e s) = Some e"
  "params (throw e s) = params s"
  "hasReturns (throw e s) = hasReturns s"
  "hasConstructor (throw e s) = hasConstructor s"
  by (simp_all add: throw_def)

lemma check_param_tag_fields [simp]:
  "thrown (check_param_tag cfg c t s) = thrown s"
  "hasReturns (check_param_tag cfg c t s) = hasReturns s"
  "hasConstructor (check_param_tag cfg c t s) = hasConstructor s"
  by (simp_all add: check_param_tag_def Let_def)

lemma check_param_tag_missing_return [simp]:
  "filter is_missing_return (reported (check_param_tag cfg c t s)) = filter is_missing_return (reported s)"
  by (simp add: check_param_tag_def Let_def is_missing_return_def)

lemma return_else_branch_fields [simp]:
  "hasReturns (return_else_branch c t s) = hasReturns s"
  "hasConstructor (return_else_branch c t s) = hasConstructor s"
  "params (return_else_branch c t s) = params s"
  "filter is_missing_return (reported (return_else_branch c t s)) = filter is_missing_return (reported s)"
  by (simp_all add: return_else_branch_def is_missing_return_def split: option.splits)

lemma return_else_branch_thrown [simp]:
  "thrown (return_else_branch c t s) = (if ttype t = None then Some TypeError else thrown s)"
  by (simp add: return_else_branch_def split: option.splits)

lemma check_return_tag_fields [simp]:
  "hasReturns (check_return_tag cfg fd c t s)"
  "hasConstructor (check_return_tag cfg fd c t s) = hasConstructor s"
  "params (check_return_tag cfg fd c t s) = params s"
  "filter is_missing_return (reported (check_return_tag cfg fd c t s)) = filter is_missing_return (reported s)"
  by (simp_all add: check_return_tag_def Let_def is_missing_return_def split: option.splits)

lemma check_return_tag_thrown:
  "thrown s = None \<Longrightarrow> ttype t \<noteq> None \<Longrightarrow> requireReturn cfg \<or> fd \<noteq> None
   \<Longrightarrow> thrown (check_return_tag cfg fd c t s) = None"
  by (auto simp add: check_return_tag_def Let_def split: option.splits)

lemma check_prefer_thrown:
  "thrown (check_prefer cfg c t s) =
     (if prefer_map cfg ''hasOwnProperty'' \<noteq> None then Some TypeError else thrown s)"
  by (simp add: check_prefer_def split: option.splits)

lemma check_prefer_fields [simp]:
  "hasReturns (check_prefer cfg c t s) = hasReturns s"
  "hasConstructor (check_prefer cfg c t s) = hasConstructor s"
  "params (check_prefer cfg c t s) = params s"
  "filter is_missing_return (reported (check_prefer cfg c t s)) = filter is_missing_return (reported s)"
  by (simp_all add: check_prefer_def is_missing_return_def use_instead_message_def
      split: option.splits)

lemma check_type_name_fields [simp]:
  "hasReturns (check_type_name c t s) = hasReturns s"
  "hasConstructor (check_type_name c t s) = hasConstructor s"
  "params (check_type_name c t s) = params s"
  "filter is_missing_return (reported (check_type_name c t s)) = filter is_missing_return (reported s)"
  by (simp_all add: check_type_name_def Let_def is_missing_return_def split: option.splits type_expr.splits)

lemma check_type_name_thrown:
  "lineNumber t < length (split_newline (comment_value c)) \<Longrightarrow>
   thrown (check_type_name c t s) = thrown s"
  by (simp add: check_type_name_def Let_def split: option.splits type_expr.splits)

lemma switch_title_fields [simp]:
  "hasReturns (switch_title cfg fd c t s) = (hasReturns s \<or> title t = ''return'' \<or> title t = ''returns'')"
  "hasConstructor (switch_title cfg fd c t s) = (hasConstructor s \<or> title t = ''constructor'')"
  "filter is_missing_return (reported (switch_title cfg fd c t s)) = filter is_missing_return (reported s)"
  by (simp_all add: switch_title_def)

lemma switch_title_thrown:
  assumes "thrown s = None"
      and "title t = ''return'' \<or> title t = ''returns'' \<longrightarrow>
             ttype t \<noteq> None \<and> (requireReturn cfg \<or> fd \<noteq> None)"
  shows "thrown (switch_title cfg fd c t s) = None"
  using assms by (simp add: switch_title_def check_return_tag_thrown)

lemma hasReturns_check_tag:
  "hasReturns (check_tag cfg fd c t s) = (hasReturns s \<or> title t = ''return'' \<or> title t = ''returns'')"
  by (simp add: check_tag_def Let_def)

lemma hasConstructor_check_tag:
  "hasConstructor (check_tag cfg fd c t s) = (hasConstructor s \<or> title t = ''constructor'')"
  by (simp add: check_tag_def Let_def)

lemma missing_return_check_tag:
  "filter is_missing_return (reported (check_tag cfg fd c t s)) = filter is_missing_return (reported s)"
  by (simp add: check_tag_def Let_def)

lemma thrown_check_tag:
  assumes "thrown s = None"
      and "lineNumber t < length (split_newline (comment_value c))"
      and "title t = ''return'' \<or> title t = ''returns'' \<longrightarrow>
             ttype t \<noteq> None \<and> (requireReturn cfg \<or> fd \<noteq> None)"
      and "prefer_map cfg ''hasOwnProperty'' = None"
  shows "thrown (check_tag cfg fd c t s) = None"
  using assms
  by (simp add: check_tag_def Let_def check_type_name_thrown switch_title_thrown
      check_prefer_thrown)

text \<open>Reports are only ever added at the end.\<close>

lemma check_param_tag_prefix:
  "\<exists>r. reported (check_param_tag cfg c t s) = reported s @ r"
  by (simp add: check_param_tag_def Let_def)

lemma check_return_tag_prefix:
  "\<exists>r. reported (check_return_tag cfg fd c t s) = reported s @ r"
  by (simp add: check_return_tag_def return_else_branch_def Let_def split: option.splits)

lemma switch_title_prefix:
  "\<exists>r. reported (switch_title cfg fd c t s) = reported s @ r"
  using check_param_tag_prefix [of cfg c t s] check_return_tag_prefix [of cfg fd c t s]
  by (simp add: switch_title_def)

lemma check_prefer_prefix:
  "\<exists>r. reported (check_prefer cfg c t s) = reported s @ r
       \<and> (\<forall>d\<in>set r. message d = use_instead_message)"
  by (simp add: check_prefer_def split: option.splits)

lemma check_type_name_prefix:
  "\<exists>r. reported (check_type_name c t s) = reported s @ r
       \<and> (\<forall>d\<in>set r. message d =
             ''Expected JSDoc type name \"{{name}}\" but found \"{{jsdocName}}\".'')"
  by (simp add: check_type_name_def Let_def split: option.splits type_expr.splits)

lemma check_tag_prefix:
  "\<exists>r. reported (check_tag cfg fd c t s) = reported s @ r"
proof -
  obtain r1 where r1: "reported (switch_title cfg fd c t s) = reported s @ r1"
    using switch_title_prefix by blast
  obtain r2 where r2: "reported (check_prefer cfg c t (switch_title cfg fd c t s)) =
      reported (switch_title cfg fd c t s) @ r2"
    using check_prefer_prefix by blast
  obtain r3 where r3:
    "reported (check_type_name c t (check_prefer cfg c t (switch_title cfg fd c t s))) =
      reported (check_prefer cfg c t (switch_title cfg fd c t s)) @ r3"
    using check_type_name_prefix by blast
  show ?thesis using r1 r2 r3 by (auto simp add: check_tag_def Let_def)
qed

lemma check_tag_keeps_reports:
  "set (reported s) \<subseteq> set (reported (check_tag cfg fd c t s))"
  using check_tag_prefix [of cfg fd c t s] by auto

lemma check_tags_keeps_reports:
  "set (reported s) \<subseteq> set (reported (check_tags cfg fd c ts s))"
proof (induction ts arbitrary: s)
  case Nil
  then show ?case by simp
next
  case (Cons t ts)
  show ?case
    using check_tag_keeps_reports [of s cfg fd c t] Cons.IH [of "check_tag cfg fd c t s"]
    by (auto simp: Let_def)
qed

text \<open>The loop over the tags.\<close>

lemma check_tags_append:
  "thrown s = None \<Longrightarrow>
   check_tags cfg fd c (xs @ ys) s =
     (if thrown (check_tags cfg fd c xs s) \<noteq> None then check_tags cfg fd c xs s
      else check_tags cfg fd c ys (check_tags cfg fd c xs s))"
  by (induction xs arbitrary: s) (auto simp: Let_def)

lemma check_tags_no_return_tag:
  assumes "thrown s = None"
      and "\<forall>t\<in>set tags. lineNumber t < length (split_newline (comment_value c))"
      and "\<forall>t\<in>set tags. title t \<noteq> ''return'' \<and> title t \<noteq> ''returns''"
      and "prefer_map cfg ''hasOwnProperty'' = None"
  shows "thrown (check_tags cfg fd c tags s) = None
         \<and> hasReturns (check_tags cfg fd c tags s) = hasReturns s
         \<and> hasConstructor (check_tags cfg fd c tags s) =
             (hasConstructor s \<or> (\<exists>t\<in>set tags. title t = ''constructor''))"
  using assms
proof (induction tags arbitrary: s)
  case Nil
  then show ?case by simp
next
  case (Cons t ts)
  have t: "thrown (check_tag cfg fd c t s) = None"
    using Cons.prems by (intro thrown_check_tag) simp_all
  have "hasReturns (check_tag cfg fd c t s) = hasReturns s"
    using Cons.prems by (simp add: hasReturns_check_tag)
  with t Cons.IH [of "check_tag cfg fd c t s"] Cons.prems show ?case
    by (auto simp add: Let_def hasConstructor_check_tag)
qed

lemma missing_return_check_tags:
  "filter is_missing_return (reported (check_tags cfg fd c tags s)) = filter is_missing_return (reported s)"
  by (induction tags arbitrary: s) (simp_all add: Let_def missing_return_check_tag)

lemma check_param_fields [simp]:
  "thrown (check_param c ps ks i p s) = thrown s"
  "filter is_missing_return (reported (check_param c ps ks i p s)) = filter is_missing_return (reported s)"
  by (simp_all add: check_param_def Let_def is_missing_return_def)

lemma check_params_from_fields [simp]:
  "thrown (check_params_from c ps ks i real s) = thrown s"
  "filter is_missing_return (reported (check_params_from c ps ks i real s)) = filter is_missing_return (reported s)"
  by (induction real arbitrary: i s) simp_all

text \<open>The registry of documented parameters only grows, by names it does not hold yet.\<close>

lemma params_check_param_tag:
  "params (check_param_tag cfg c t s) =
     (if map_of (params s) (tname t) = None \<and> indexOf (tname t) ''.'' = - 1
      then params s @ [(tname t, t)] else params s)"
  by (simp add: check_param_tag_def Let_def)

lemma params_check_tag:
  "params (check_tag cfg fd c t s) =
     (if title t = ''param'' \<and> map_of (params s) (tname t) = None
         \<and> indexOf (tname t) ''.'' = - 1
      then params s @ [(tname t, t)] else params s)"
  by (simp add: check_tag_def switch_title_def Let_def params_check_param_tag)

lemma check_tag_keeps_entry:
  "map_of (params s) k = Some v \<Longrightarrow> map_of (params (check_tag cfg fd c t s)) k = Some v"
  by (simp add: params_check_tag map_add_Some_iff)

lemma check_tag_keeps_distinct:
  "distinct (map fst (params s)) \<Longrightarrow> distinct (map fst (params (check_tag cfg fd c t s)))"
  by (auto simp add: params_check_tag map_of_eq_None_iff)

lemma check_tag_keeps_absent:
  "map_of (params s) k = None \<Longrightarrow> \<not> (title t = ''param'' \<and> tname t = k)
   \<Longrightarrow> map_of (params (check_tag cfg fd c t s)) k = None"
  by (auto simp add: params_check_tag map_add_def)

lemma check_tags_keeps_entry:
  "map_of (params s) k = Some v \<Longrightarrow> map_of (params (check_tags cfg fd c ts s)) k = Some v"
  by (induction ts arbitrary: s) (simp_all add: Let_def check_tag_keeps_entry)

lemma check_tags_keeps_distinct:
  "distinct (map fst (params s)) \<Longrightarrow> distinct (map fst (params (check_tags cfg fd c ts s)))"
  by (induction ts arbitrary: s) (simp_all add: Let_def check_tag_keeps_distinct)

lemma check_tags_keeps_absent:
  "map_of (params s) k = None \<Longrightarrow> \<forall>t\<in>set ts. \<not> (title t = ''param'' \<and> tname t = k)
   \<Longrightarrow> map_of (params (check_tags cfg fd c ts s)) k = None"
  by (induction ts arbitrary: s) (simp_all add: Let_def check_tag_keeps_absent)

lemma duplicate_reported:
  assumes "title t = ''param''" and "map_of (params s) (tname t) = Some v"
  shows "\<lparr>node = c, loc = Some \<lparr>line = Num (loc_start_line c + int (lineNumber t)), column = None\<rparr>,
          message = ''Duplicate JSDoc parameter \"{{name}}\".'',
          data = [(''name'', JStr (tname t))]\<rparr> \<in> set (reported (check_tag cfg fd c t s))"
    (is "?D \<in> _")
proof -
  define s1 where "s1 = switch_title cfg fd c t s"
  have "?D \<in> set (reported s1)"
    using assms by (simp add: s1_def switch_title_def check_param_tag_def Let_def tag_line_def)
  moreover obtain r2 where "reported (check_prefer cfg c t s1) = reported s1 @ r2"
    using check_prefer_prefix by blast
  moreover obtain r3 where "reported (check_type_name c t (check_prefer cfg c t s1)) =
      reported (check_prefer cfg c t s1) @ r3"
    using check_type_name_prefix by blast
  ultimately show ?thesis
    by (auto simp add: check_tag_def Let_def simp flip: s1_def)
qed

lemma check_type_name_reports:
  assumes "ttype t = Some (NameExpression n)"
      and "map_of type_map (toLowerCase n) = Some p"
      and "n \<noteq> p"
      and "lineNumber t < length (split_newline (comment_value c))"
  shows "check_type_name c t s =
           report c
             (Some \<lparr>line = Num (loc_start_line c + int (lineNumber t)),
                    column = Some (loc_start_column c + 1
                       + indexOf (split_newline (comment_value c) ! lineNumber t) n)\<rparr>)
             ''Expected JSDoc type name \"{{name}}\" but found \"{{jsdocName}}\".''
             [(''name'', JStr p), (''jsdocName'', JStr n)] s"
  using assms by (simp add: check_type_name_def type_map_get_def Let_def)

text \<open>The stack.\<close>

lemma fns_checkJSDoc: "fns (checkJSDoc cfg p fnode rs) = butlast (fns rs)"
  by (simp add: checkJSDoc_def Let_def split: option.splits sum.splits)

lemma length_fns_addReturn: "length (fns (addReturn a rs)) = length (fns rs)"
  by (simp add: addReturn_def)

lemma run_depth:
  "nesting (length (fns rs)) es = Some d \<Longrightarrow> crashed (run cfg p es rs) = None
   \<Longrightarrow> length (fns (run cfg p es rs)) = d"
proof (induction es arbitrary: rs d)
  case Nil
  then show ?case by simp
next
  case (Cons e es)
  then show ?case
    by (cases e) (auto simp: startFunction_def length_fns_addReturn fns_checkJSDoc
        split: if_splits nat.splits)
qed

subsection \<open>A return tag without a type\<close>

text \<open>
  Whatever the configuration and the state of the function, the callback throws for a
  \<open>return\<close> or \<open>returns\<close> tag whose type is \<open>null\<close>: every path through the case reads
  \<open>tag.type.name\<close>.
\<close>

lemma typeless_return_tag_always_throws:
  assumes "title t = ''return'' \<or> title t = ''returns''" and "ttype t = None"
  shows "thrown (check_tag cfg fd c t s) = Some TypeError"
proof -
  have np: "title t \<noteq> ''param''"
    using assms(1) by auto
  have "thrown (check_return_tag cfg fd c t s) = Some TypeError"
    using assms(2) by (simp add: check_return_tag_def Let_def split: option.splits)
  then show ?thesis
    using assms(1) np by (simp add: check_tag_def switch_title_def Let_def)
qed

text \<open>
  C1. A comment that parses and has a return tag without a type: the claim is that
  "Missing JSDoc return type." is reported and that the rest of the checks of the
  function are completed without error. For the function
  \<open>/** @return the sum */ function add(a, b) { return a + b; }\<close> under the default
  configuration the rule reports the missing type and then throws a \<open>TypeError\<close>: the
  two parameters are never compared with the comment. When \<open>requireReturn\<close> is false
  and the body returns no value, it throws before it has reported anything.
\<close>

theorem typeless_return_tag_throws:
  "run default_config (\<lambda>text. Inr [typeless_tag])
     [Enter, Return (Some ()),
      Exit \<lparr>jsdocComment = Some typeless_comment,
            node_params = [Identifier ''a'', Identifier ''b'']\<rparr>]
     initial_rule_state =
     \<lparr>fns = [],
      reports = [\<lparr>node = typeless_comment,
                  loc = Some \<lparr>line = Num 4, column = None\<rparr>,
                  message = ''Missing JSDoc return type.'', data = []\<rparr>],
      crashed = Some TypeError\<rparr>
   \<and> run (default_config\<lparr>requireReturn := False\<rparr>) (\<lambda>text. Inr [typeless_tag])
     [Enter, Return (None :: unit option),
      Exit \<lparr>jsdocComment = Some typeless_comment,
            node_params = [Identifier ''a'', Identifier ''b'']\<rparr>]
     initial_rule_state =
     \<lparr>fns = [], reports = [], crashed = Some TypeError\<rparr>"
  by (simp add: default_config_def typeless_tag_def typeless_comment_def initial_rule_state_def
      startFunction_def addReturn_def checkJSDoc_def validate_def check_tag_def
      switch_title_def check_return_tag_def return_else_branch_def initial_check_state_def
      report_def throw_def tag_line_def Let_def)

subsection \<open>The missing return tag\<close>

text \<open>
  When no tag is a return or returns tag, every tag's line number is a line of the
  comment as \<open>split\<close> sees it, the function's record is on the stack and \<open>prefer\<close> has
  no own property \<open>hasOwnProperty\<close>, \<open>checkJSDoc\<close> completes, and among the reports
  it adds there is exactly one "Missing JSDoc @return for function." when no tag is a
  constructor tag and either \<open>requireReturn\<close> is true or the body returned a value,
  and none otherwise.
\<close>

lemma missing_return_without_exception:
  assumes "jsdocComment fnode = Some c"
      and "doctrine_parse (replace_module (comment_value c)) = Inr tags"
      and "\<forall>t\<in>set tags. title t \<noteq> ''return'' \<and> title t \<noteq> ''returns''"
      and "\<forall>t\<in>set tags. lineNumber t < length (split_newline (comment_value c))"
      and "fns rs = stack @ [fd]"
      and "prefer_map cfg ''hasOwnProperty'' = None"
  shows "crashed (checkJSDoc cfg doctrine_parse fnode rs) = None
         \<and> (\<exists>new. reports (checkJSDoc cfg doctrine_parse fnode rs) = reports rs @ new
               \<and> filter (\<lambda>d. message d = ''Missing JSDoc @return for function.'') new =
                   (if (\<forall>t\<in>set tags. title t \<noteq> ''constructor'')
                       \<and> (requireReturn cfg \<or> returnPresent fd)
                    then [\<lparr>node = c, loc = None,
                           message = ''Missing JSDoc @return for function.'', data = []\<rparr>]
                    else []))"
proof -
  define s1 where "s1 = check_tags cfg (Some fd) c tags initial_check_state"
  define s2 where "s2 = check_missing_return cfg (Some fd) c s1"
  define D where "D = \<lparr>node = c, loc = None,
    message = ''Missing JSDoc @return for function.'', data = []\<rparr>"
  have init: "thrown initial_check_state = None" "\<not> hasReturns initial_check_state"
    "\<not> hasConstructor initial_check_state" "reported initial_check_state = []"
    by (simp_all add: initial_check_state_def)
  have s1: "thrown s1 = None" "\<not> hasReturns s1"
    "hasConstructor s1 = (\<exists>t\<in>set tags. title t = ''constructor'')"
    using check_tags_no_return_tag [OF init(1) assms(4) assms(3) assms(6), of "Some fd"] init
    by (simp_all add: s1_def)
  have f1: "filter is_missing_return (reported s1) = []"
    by (simp add: s1_def missing_return_check_tags init)
  have s2: "thrown s2 = None"
    using s1 by (simp add: s2_def check_missing_return_def)
  have f2: "filter is_missing_return (reported s2) =
              (if (\<forall>t\<in>set tags. title t \<noteq> ''constructor'')
                  \<and> (requireReturn cfg \<or> returnPresent fd)
               then [D] else [])"
    using s1 f1 by (simp add: s2_def check_missing_return_def is_missing_return_def D_def)
  have v: "validate cfg (Some fd) c tags (node_params fnode) = check_params c (node_params fnode) s2"
    using s1 s2 by (simp add: validate_def Let_def s1_def s2_def)
  have isM: "is_missing_return = (\<lambda>d. message d = ''Missing JSDoc @return for function.'')"
    by (simp add: fun_eq_iff is_missing_return_def)
  have "crashed (checkJSDoc cfg doctrine_parse fnode rs) = None"
    using assms(1,2,5) s2 by (simp add: checkJSDoc_def Let_def v check_params_def)
  moreover have "reports (checkJSDoc cfg doctrine_parse fnode rs) =
      reports rs @ reported (check_params c (node_params fnode) s2)"
    using assms(1,2,5) by (simp add: checkJSDoc_def Let_def v)
  moreover have "filter (\<lambda>d. message d = ''Missing JSDoc @return for function.'')
      (reported (check_params c (node_params fnode) s2)) =
        (if (\<forall>t\<in>set tags. title t \<noteq> ''constructor'')
            \<and> (requireReturn cfg \<or> returnPresent fd)
         then [D] else [])"
    using f2 by (simp add: check_params_def isM [symmetric])
  ultimately show ?thesis unfolding D_def by blast
qed


text \<open>
  C2. The claim is that for every function with a comment that parses, no return or
  returns tag and no constructor tag, "Missing JSDoc @return for function." is
  reported once when \<open>requireReturn\<close> is true or the body returns a value. The comment
  of \<open>function f(n) { return n; }\<close> below has its lines ended by a carriage return
  alone. The parser counts the carriage return as the end of a line and gives the
  param tag the line number 1, while \<open>value.split(/\n/)\<close> gives one line; the type
  name \<open>Number\<close> is not the preferred one, so the column of its report is computed
  from \<open>lines[1]\<close>, which is \<open>undefined\<close>. The rule throws inside the loop over the
  tags, under the default configuration, and reports nothing at all.
\<close>

theorem lone_cr_comment_no_missing_return:
  "run default_config (\<lambda>text. Inr [number_tag])
     [Enter, Return (Some ()),
      Exit \<lparr>jsdocComment = Some lone_cr_number_comment, node_params = [Identifier ''n'']\<rparr>]
     initial_rule_state =
     \<lparr>fns = [], reports = [], crashed = Some TypeError\<rparr>"
  by (simp add: number_tag_def lone_cr_number_comment_def
      default_config_def initial_rule_state_def startFunction_def addReturn_def
      checkJSDoc_def validate_def check_tag_def switch_title_def check_param_tag_def
      check_return_tag_def return_else_branch_def check_prefer_def check_type_name_def
      type_map_get_def type_map_def toLowerCase_def lower_char_def truthy_def indexOf_def
      initial_check_state_def report_def throw_def tag_line_def Let_def)

subsection \<open>The unexpected return tag\<close>

text \<open>
  With \<open>requireReturn\<close> false and no value returned by the body, a return or returns
  tag that has a type whose name is neither \<open>void\<close> nor \<open>undefined\<close> makes the callback
  report "Unexpected @return tag; function has no return statement." (with the tag's
  own title) at the tag's line, and nothing that the callback reports after it for
  this tag is a missing return type or a missing return description.
\<close>

lemma unexpected_typed_return_tag:
  assumes "\<not> requireReturn cfg"
      and "\<not> returnPresent fd"
      and "title t = ''return'' \<or> title t = ''returns''"
      and "ttype t = Some ty"
      and "type_name ty \<noteq> Some ''void''"
      and "type_name ty \<noteq> Some ''undefined''"
  shows "\<exists>rest. reported (check_tag cfg (Some fd) c t s) =
           reported s @
             \<lparr>node = c,
               loc = Some \<lparr>line = Num (loc_start_line c + int (lineNumber t)), column = None\<rparr>,
               message = ''Unexpected @'' @ title t @ '' tag; function has no return statement.'',
               data = []\<rparr> # rest
           \<and> (\<forall>d\<in>set rest. message d \<noteq> ''Missing JSDoc return type.''
                               \<and> message d \<noteq> ''Missing JSDoc return description.'')"
proof -
  define D where "D = \<lparr>node = c,
               loc = Some \<lparr>line = Num (loc_start_line c + int (lineNumber t)), column = None\<rparr>,
               message = ''Unexpected @'' @ title t @ '' tag; function has no return statement.'',
               data = []\<rparr>"
  define s1 where "s1 = switch_title cfg (Some fd) c t s"
  define s2 where "s2 = check_prefer cfg c t s1"
  have np: "title t \<noteq> ''param''"
    using assms(3) by auto
  have r1: "reported s1 = reported s @ [D]"
    using assms np by (simp add: s1_def switch_title_def check_return_tag_def Let_def tag_line_def D_def)
  have ct: "check_tag cfg (Some fd) c t s =
      (if thrown s1 \<noteq> None then s1
       else if thrown s2 \<noteq> None then s2 else check_type_name c t s2)"
    by (simp add: check_tag_def s1_def s2_def Let_def)
  obtain r where r: "reported s2 = reported s1 @ r"
    "\<forall>d\<in>set r. message d = use_instead_message"
    unfolding s2_def using check_prefer_prefix by blast
  obtain r' where r': "reported (check_type_name c t s2) = reported s2 @ r'"
    "\<forall>d\<in>set r'. message d =
          ''Expected JSDoc type name \"{{name}}\" but found \"{{jsdocName}}\".''"
    using check_type_name_prefix by blast
  have ok: "\<forall>d\<in>set (r @ r'). message d \<noteq> ''Missing JSDoc return type.''
                               \<and> message d \<noteq> ''Missing JSDoc return description.''"
    using r(2) r'(2) by (auto simp: use_instead_message_def)
  consider "thrown s1 \<noteq> None" | "thrown s1 = None" "thrown s2 \<noteq> None"
    | "thrown s1 = None" "thrown s2 = None"
    by blast
  then show ?thesis
  proof cases
    case 1
    then have "reported (check_tag cfg (Some fd) c t s) = reported s @ D # []"
      using ct r1 by simp
    moreover have "\<forall>d\<in>set ([] :: diagnostic list).
        message d \<noteq> ''Missing JSDoc return type.''
        \<and> message d \<noteq> ''Missing JSDoc return description.''"
      by simp
    ultimately show ?thesis unfolding D_def by blast
  next
    case 2
    then have "reported (check_tag cfg (Some fd) c t s) = reported s @ D # r"
      using ct r1 r(1) by simp
    moreover have "\<forall>d\<in>set r. message d \<noteq> ''Missing JSDoc return type.''
                               \<and> message d \<noteq> ''Missing JSDoc return description.''"
      using ok by simp
    ultimately show ?thesis unfolding D_def by blast
  next
    case 3
    then have "reported (check_tag cfg (Some fd) c t s) = reported s @ D # (r @ r')"
      using ct r1 r(1) r'(1) by simp
    then show ?thesis using ok unfolding D_def by blast
  qed
qed

text \<open>
  C3. The claim is that, with \<open>requireReturn\<close> false and no value returned, each
  return or returns tag whose type name is neither \<open>void\<close> nor \<open>undefined\<close> is
  reported as unexpected, and that the check for a missing type does not run then.
  A returns tag without a type has no such type name, and for
  \<open>/** @returns the sum */ function f() {}\<close> the rule reads \<open>tag.type.name\<close> of the
  \<open>null\<close> type in the very condition and throws before it has reported anything.
\<close>

theorem typeless_returns_tag_no_unexpected:
  "run (default_config\<lparr>requireReturn := False\<rparr>)
     (\<lambda>text. Inr [typeless_tag\<lparr>title := ''returns''\<rparr>])
     [Enter, Exit \<lparr>jsdocComment = Some typeless_returns_comment, node_params = []\<rparr>]
     initial_rule_state =
     \<lparr>fns = [], reports = [], crashed = Some TypeError\<rparr>"
  by (simp add: typeless_tag_def typeless_returns_comment_def
      default_config_def initial_rule_state_def startFunction_def addReturn_def
      checkJSDoc_def validate_def check_tag_def switch_title_def check_param_tag_def
      check_return_tag_def return_else_branch_def check_prefer_def check_type_name_def
      type_map_get_def type_map_def toLowerCase_def lower_char_def truthy_def indexOf_def
      initial_check_state_def report_def throw_def tag_line_def Let_def)

subsection \<open>The comparison with the parameters of the function\<close>

text \<open>
  When neither the loop over the tags nor the check for a missing return tag throws,
  \<open>checkJSDoc\<close> ends with the loop over the parameters, run in the state that they
  leave, and its reports are added to those of the rule.
\<close>

lemma checkJSDoc_runs_check_params:
  assumes "jsdocComment fnode = Some c"
      and "doctrine_parse (replace_module (comment_value c)) = Inr tags"
      and "functionData = (if fns rs = [] then None else Some (last (fns rs)))"
      and "s1 = check_tags cfg functionData c tags initial_check_state"
      and "s2 = check_missing_return cfg functionData c s1"
      and "thrown s1 = None" and "thrown s2 = None"
  shows "reports (checkJSDoc cfg doctrine_parse fnode rs) =
           reports rs @ reported (check_params c (node_params fnode) s2)"
  using assms by (simp add: checkJSDoc_def validate_def Let_def)






subsection \<open>Two param tags with one name\<close>

text \<open>
  When the loop over the tags reaches the second of two param tags with the same
  name, which has no dot, the first of them being the first param tag with this name:
  at the end of the loop the registry holds the first tag under the name, each name
  once, and 'Duplicate JSDoc parameter' has been reported for the name at the line of
  the second tag.
\<close>

lemma duplicate_param_tag_when_reached:
  assumes t1: "title t1 = ''param''" "tname t1 = n"
      and t2: "title t2 = ''param''" "tname t2 = n"
      and dot: "indexOf n ''.'' = - 1"
      and first: "\<forall>t\<in>set before. \<not> (title t = ''param'' \<and> tname t = n)"
      and reach: "thrown (check_tags cfg fd c (before @ t1 # between) initial_check_state) = None"
  shows "map_of (params (check_tags cfg fd c (before @ t1 # between @ t2 # after) initial_check_state)) n
           = Some t1
         \<and> distinct (map fst
             (params (check_tags cfg fd c (before @ t1 # between @ t2 # after) initial_check_state)))
         \<and> \<lparr>node = c,
             loc = Some \<lparr>line = Num (loc_start_line c + int (lineNumber t2)), column = None\<rparr>,
             message = ''Duplicate JSDoc parameter \"{{name}}\".'',
             data = [(''name'', JStr n)]\<rparr>
           \<in> set (reported
                 (check_tags cfg fd c (before @ t1 # between @ t2 # after) initial_check_state))"
proof -
  let ?init = initial_check_state
  define sp where "sp = check_tags cfg fd c before ?init"
  define s1 where "s1 = check_tag cfg fd c t1 sp"
  define s2 where "s2 = check_tags cfg fd c between s1"
  define s3 where "s3 = check_tag cfg fd c t2 s2"
  define final where
    "final = check_tags cfg fd c (before @ t1 # between @ t2 # after) ?init"
  define D where "D = \<lparr>node = c,
             loc = Some \<lparr>line = Num (loc_start_line c + int (lineNumber t2)), column = None\<rparr>,
             message = ''Duplicate JSDoc parameter \"{{name}}\".'',
             data = [(''name'', JStr n)]\<rparr>"
  have init: "thrown ?init = None" "params ?init = []"
    by (simp_all add: initial_check_state_def)
  have mid: "check_tags cfg fd c (before @ t1 # between) ?init =
      (if thrown sp \<noteq> None then sp else check_tags cfg fd c (t1 # between) sp)"
    using check_tags_append [OF init(1), of cfg fd c before "t1 # between"] by (simp add: sp_def)
  have sp: "thrown sp = None"
    using reach mid by (auto split: if_splits)
  have mid2: "check_tags cfg fd c (before @ t1 # between) ?init =
      (if thrown s1 \<noteq> None then s1 else s2)"
    using mid sp by (simp add: Let_def s1_def s2_def)
  have s1: "thrown s1 = None"
    using reach mid2 by (auto split: if_splits)
  have s2: "check_tags cfg fd c (before @ t1 # between) ?init = s2" "thrown s2 = None"
    using reach mid2 s1 by simp_all
  have "check_tags cfg fd c ((before @ t1 # between) @ t2 # after) ?init =
      check_tags cfg fd c (t2 # after) s2"
    using check_tags_append [OF init(1), of cfg fd c "before @ t1 # between" "t2 # after"] s2
    by simp
  then have final: "final = (if thrown s3 \<noteq> None then s3 else check_tags cfg fd c after s3)"
    by (simp add: final_def s3_def Let_def)
  have "map_of (params sp) n = None"
    unfolding sp_def using first by (intro check_tags_keeps_absent) (simp_all add: init)
  then have e1: "map_of (params s1) n = Some t1"
    using t1 dot by (simp add: s1_def params_check_tag map_add_def)
  then have e2: "map_of (params s2) n = Some t1"
    unfolding s2_def by (rule check_tags_keeps_entry)
  then have e3: "map_of (params s3) n = Some t1"
    unfolding s3_def by (rule check_tag_keeps_entry)
  have "distinct (map fst (params s3))"
    unfolding s3_def s2_def s1_def sp_def
    by (intro check_tag_keeps_distinct check_tags_keeps_distinct) (simp add: init)
  then have d: "distinct (map fst (params final))"
    unfolding final by (simp add: check_tags_keeps_distinct)
  have e: "map_of (params final) n = Some t1"
    unfolding final using e3 by (simp add: check_tags_keeps_entry)
  have "D \<in> set (reported s3)"
    unfolding D_def s3_def using duplicate_reported [of t2 s2 t1 c cfg fd] t2 e2 by simp
  then have r: "D \<in> set (reported final)"
    unfolding final using check_tags_keeps_reports [of s3 cfg fd c after] by auto
  show ?thesis
    using e d r unfolding final_def D_def by simp
qed


text \<open>
  C6. The claim is that for every function whose comment has two param tags with the
  same name, the second is reported as a duplicate. In the comment of
  \<open>function f(x) { return x; }\<close> below, a return tag without a type stands between the
  two param tags for \<open>x\<close>: the rule reports the missing return type, throws on
  \<open>tag.type.name\<close>, and never comes to the second param tag.
\<close>

theorem typeless_return_between_no_duplicate:
  "run default_config
     (\<lambda>text. Inr [first_x_tag, typeless_tag\<lparr>lineNumber := 2\<rparr>,
                   first_x_tag\<lparr>description := Some ''again'', lineNumber := 3\<rparr>])
     [Enter, Return (Some ()),
      Exit \<lparr>jsdocComment = Some duplicate_comment, node_params = [Identifier ''x'']\<rparr>]
     initial_rule_state =
     \<lparr>fns = [],
      reports = [\<lparr>node = duplicate_comment,
                  loc = Some \<lparr>line = Num 5, column = None\<rparr>,
                  message = ''Missing JSDoc return type.'', data = []\<rparr>],
      crashed = Some TypeError\<rparr>"
  by (simp add: first_x_tag_def typeless_tag_def duplicate_comment_def
      default_config_def initial_rule_state_def startFunction_def addReturn_def
      checkJSDoc_def validate_def check_tag_def switch_title_def check_param_tag_def
      check_return_tag_def return_else_branch_def check_prefer_def check_type_name_def
      type_map_get_def type_map_def toLowerCase_def lower_char_def truthy_def indexOf_def
      initial_check_state_def report_def throw_def tag_line_def Let_def)

subsection \<open>The comment that does not parse\<close>

text \<open>
  C7. When the parser throws for the text of the comment, \<open>checkJSDoc\<close> adds one report
  and does nothing else besides removing the function's record from the stack. The
  report is made for the comment node without a location; its message is "JSDoc type
  missing brace." when the parser's message contains \<open>braces\<close> in any mix of capital
  and small letters (lemma \<open>test_braces_iff\<close>), and "JSDoc syntax error." otherwise.
\<close>

theorem parse_failure_one_report:
  assumes "jsdocComment fnode = Some c"
      and "doctrine_parse (replace_module (comment_value c)) = Inl ex_message"
  shows "checkJSDoc cfg doctrine_parse fnode rs =
           rs\<lparr>fns := butlast (fns rs),
              reports := reports rs @
                [\<lparr>node = c, loc = None,
                  message = (if test_braces ex_message then ''JSDoc type missing brace.''
                             else ''JSDoc syntax error.''),
                  data = []\<rparr>]\<rparr>"
  using assms by (simp add: checkJSDoc_def)

theorem parse_failure_one_report_witness:
  "checkJSDoc default_config (\<lambda>text. Inl ''Braces are not balanced'')
     \<lparr>jsdocComment = Some example_comment, node_params = [Identifier ''x'']\<rparr>
     \<lparr>fns = [\<lparr>returnPresent = False\<rparr>], reports = [], crashed = None\<rparr> =
   \<lparr>fns = [],
    reports = [\<lparr>node = example_comment, loc = None,
                message = ''JSDoc type missing brace.'', data = []\<rparr>],
    crashed = None\<rparr>"
  using parse_failure_one_report
    [of "\<lparr>jsdocComment = Some example_comment, node_params = [Identifier ''x'']\<rparr>"
        example_comment "\<lambda>text. Inl ''Braces are not balanced''" "''Braces are not balanced''"
        default_config "\<lparr>fns = [\<lparr>returnPresent = False\<rparr>], reports = [], crashed = None\<rparr>"]
  by (simp add: test_braces_def indexOf_def toLowerCase_def lower_char_def)

subsection \<open>The preferred type names\<close>

text \<open>
  When nothing before it in the callback throws and the tag's line number is a line of
  the comment as \<open>split\<close> sees it, a tag of any title whose type is a name expression
  with a name that differs from the preferred one ends the callback with the report
  'Expected JSDoc type name': \<open>jsdocName\<close> is the name as written and the column is the
  start column of the comment plus one plus \<open>indexOf\<close> of the name in that line.
\<close>

lemma type_name_reported_without_exception:
  assumes "thrown s = None"
      and "ttype t = Some (NameExpression n)"
      and "map_of type_map (toLowerCase n) = Some p"
      and "n \<noteq> p"
      and "lineNumber t < length (split_newline (comment_value c))"
      and "title t = ''return'' \<or> title t = ''returns'' \<longrightarrow> requireReturn cfg \<or> fd \<noteq> None"
      and "prefer_map cfg ''hasOwnProperty'' = None"
  shows "thrown (check_tag cfg fd c t s) = None
         \<and> (\<exists>before. reported (check_tag cfg fd c t s) =
               reported s @ before @
                 [\<lparr>node = c,
                   loc = Some \<lparr>line = Num (loc_start_line c + int (lineNumber t)),
                               column = Some (loc_start_column c + 1
                                 + indexOf (split_newline (comment_value c) ! lineNumber t) n)\<rparr>,
                   message = ''Expected JSDoc type name \"{{name}}\" but found \"{{jsdocName}}\".'',
                   data = [(''name'', JStr p), (''jsdocName'', JStr n)]\<rparr>])"
proof -
  define s1 where "s1 = switch_title cfg fd c t s"
  define s2 where "s2 = check_prefer cfg c t s1"
  have t1: "thrown s1 = None"
    unfolding s1_def using assms(1,2,6) by (intro switch_title_thrown) simp_all
  have t2: "thrown s2 = None"
    using t1 assms(7) by (simp add: s2_def check_prefer_thrown)
  obtain r1 where r1: "reported s1 = reported s @ r1"
    unfolding s1_def using switch_title_prefix by blast
  obtain r2 where r2: "reported s2 = reported s1 @ r2"
    unfolding s2_def using check_prefer_prefix by blast
  have ct: "check_tag cfg fd c t s = check_type_name c t s2"
    using t1 t2 by (simp add: check_tag_def s1_def s2_def Let_def)
  have "thrown (check_tag cfg fd c t s) = None"
    using t2 by (simp add: ct check_type_name_reports [OF assms(2-5)])
  moreover have "reported (check_tag cfg fd c t s) =
               reported s @ (r1 @ r2) @
                 [\<lparr>node = c,
                   loc = Some \<lparr>line = Num (loc_start_line c + int (lineNumber t)),
                               column = Some (loc_start_column c + 1
                                 + indexOf (split_newline (comment_value c) ! lineNumber t) n)\<rparr>,
                   message = ''Expected JSDoc type name \"{{name}}\" but found \"{{jsdocName}}\".'',
                   data = [(''name'', JStr p), (''jsdocName'', JStr n)]\<rparr>]"
    by (simp add: ct check_type_name_reports [OF assms(2-5)] r1 r2)
  ultimately show ?thesis by (intro conjI exI)
qed

text \<open>
  C8. The claim is that every tag whose type is a name such as \<open>String\<close> is reported
  with the column of the name in the line of the comment at the tag's line number.
  The lines of the comment of \<open>function f(x) {}\<close> below are ended by a carriage return
  alone. The parser gives the tag the line number 1, \<open>value.split(/\n/)\<close> gives one
  line, \<open>lines[1]\<close> is \<open>undefined\<close>, and the rule throws while it computes the column:
  nothing is reported for the name.
\<close>

theorem lone_cr_comment_no_type_name_report:
  "split_newline (comment_value lone_cr_comment) = [comment_value lone_cr_comment]
   \<and> run default_config (\<lambda>text. Inr [example_tag])
     [Enter, Exit \<lparr>jsdocComment = Some lone_cr_comment, node_params = [Identifier ''x'']\<rparr>]
     initial_rule_state =
     \<lparr>fns = [], reports = [], crashed = Some TypeError\<rparr>"
  by (simp add: example_tag_def lone_cr_comment_def
      default_config_def initial_rule_state_def startFunction_def addReturn_def
      checkJSDoc_def validate_def check_tag_def switch_title_def check_param_tag_def
      check_return_tag_def return_else_branch_def check_prefer_def check_type_name_def
      type_map_get_def type_map_def toLowerCase_def lower_char_def truthy_def indexOf_def
      initial_check_state_def report_def throw_def tag_line_def Let_def)

subsection \<open>The stack of open functions\<close>

text \<open>
  C9. Whatever the stack is, \<open>addReturn\<close> keeps its length and every entry but the
  last, makes no report and throws nothing; it changes nothing at all when the return
  has no argument or the stack is empty; otherwise it sets \<open>returnPresent\<close> in the last
  entry.
\<close>

theorem addReturn_top_only:
  "length (fns (addReturn a rs)) = length (fns rs)
   \<and> butlast (fns (addReturn a rs)) = butlast (fns rs)
   \<and> reports (addReturn a rs) = reports rs
   \<and> crashed (addReturn a rs) = crashed rs
   \<and> (a = None \<longrightarrow> addReturn a rs = rs)
   \<and> (fns rs = [] \<longrightarrow> addReturn a rs = rs)
   \<and> (fns rs \<noteq> [] \<and> a \<noteq> None \<longrightarrow>
        fns (addReturn a rs) = butlast (fns rs) @ [(last (fns rs))\<lparr>returnPresent := True\<rparr>])"
proof -
  have upd: "xs[length xs - Suc 0 := v] = butlast xs @ [v]" if "xs \<noteq> []" for xs :: "function_state list" and v
    using that by (induction xs rule: rev_induct) simp_all
  show ?thesis
    by (auto simp: addReturn_def upd)
qed

theorem addReturn_top_only_witness:
  "fns (addReturn (Some ())
          \<lparr>fns = [\<lparr>returnPresent = False\<rparr>, \<lparr>returnPresent = False\<rparr>],
           reports = [], crashed = None\<rparr>) =
     [\<lparr>returnPresent = False\<rparr>, \<lparr>returnPresent = True\<rparr>]
   \<and> addReturn (None :: unit option)
          \<lparr>fns = [\<lparr>returnPresent = False\<rparr>, \<lparr>returnPresent = False\<rparr>],
           reports = [], crashed = None\<rparr> =
       \<lparr>fns = [\<lparr>returnPresent = False\<rparr>, \<lparr>returnPresent = False\<rparr>],
        reports = [], crashed = None\<rparr>
   \<and> addReturn (Some ()) initial_rule_state = initial_rule_state"
  using addReturn_top_only
      [of "Some ()" "\<lparr>fns = [\<lparr>returnPresent = False\<rparr>, \<lparr>returnPresent = False\<rparr>],
                      reports = [], crashed = None\<rparr>"]
    addReturn_top_only
      [of "None :: unit option"
          "\<lparr>fns = [\<lparr>returnPresent = False\<rparr>, \<lparr>returnPresent = False\<rparr>],
            reports = [], crashed = None\<rparr>"]
    addReturn_top_only [of "Some ()" initial_rule_state]
  by (simp add: initial_rule_state_def)

text \<open>
  C10. \<open>checkJSDoc\<close> removes the last entry of the stack whatever the function node is,
  with or without a comment, whether or not an exception follows. For a function
  without a comment it makes no report and throws nothing. Entering a function and
  leaving it gives the stack back, and after any run of events that leaves no function
  it has not entered, and that no exception ends, the depth of the stack is the
  number of open functions.
\<close>

theorem checkJSDoc_pops:
  "fns (checkJSDoc cfg p fnode rs) = butlast (fns rs)
   \<and> (jsdocComment fnode = None \<longrightarrow>
        reports (checkJSDoc cfg p fnode rs) = reports rs
        \<and> crashed (checkJSDoc cfg p fnode rs) = crashed rs)
   \<and> fns (checkJSDoc cfg p fnode (startFunction rs)) = fns rs
   \<and> (nesting (length (fns rs)) es = Some d \<and> crashed (run cfg p es rs) = None \<longrightarrow>
        length (fns (run cfg p es rs)) = d)"
  using run_depth [of rs es d cfg p]
  by (simp add: fns_checkJSDoc startFunction_def) (simp add: checkJSDoc_def)

theorem checkJSDoc_pops_witness:
  "jsdocComment \<lparr>jsdocComment = None, node_params = [Identifier ''x'']\<rparr> = None
   \<and> reports (checkJSDoc default_config (\<lambda>text. Inr [])
                \<lparr>jsdocComment = None, node_params = [Identifier ''x'']\<rparr>
                (startFunction initial_rule_state)) = []
   \<and> nesting (length (fns (startFunction initial_rule_state)))
        [Enter, Return (Some ()),
         Exit \<lparr>jsdocComment = None, node_params = [Identifier ''x'']\<rparr>] = Some 1
   \<and> length (fns (run default_config (\<lambda>text. Inr [])
        [Enter, Return (Some ()),
         Exit \<lparr>jsdocComment = None, node_params = [Identifier ''x'']\<rparr>]
        (startFunction initial_rule_state))) = 1"
proof -
  have h: "nesting (length (fns (startFunction initial_rule_state)))
        [Enter, Return (Some ()),
         Exit \<lparr>jsdocComment = None, node_params = [Identifier ''x'']\<rparr>] = Some 1
     \<and> crashed (run default_config (\<lambda>text. Inr [])
        [Enter, Return (Some ()),
         Exit \<lparr>jsdocComment = None, node_params = [Identifier ''x'']\<rparr>]
        (startFunction initial_rule_state)) = None"
    by (simp add: startFunction_def initial_rule_state_def addReturn_def checkJSDoc_def)
  show ?thesis
    using h checkJSDoc_pops
      [of default_config "\<lambda>text. Inr []"
          "\<lparr>jsdocComment = None, node_params = [Identifier ''x'']\<rparr>"
          "startFunction initial_rule_state"
          "[Enter, Return (Some ()),
            Exit \<lparr>jsdocComment = None, node_params = [Identifier ''x'']\<rparr>]" 1]
    by (simp add: startFunction_def initial_rule_state_def)
qed

end
